theory Spec2Isabelle
  imports Main
begin

section \<open>ScholarX backend (demo.js): data model\<close>

text \<open>
  The program is a single Express module. Its external collaborators are the identity
  provider (\<open>admin.auth().verifyIdToken\<close>) and the document store reached through
  Mongoose. Both are modelled as far as the handlers observe them: the verifier is a
  function from a token to the decoded claims (or a failure), the store is a record of
  collections that every persistence call reads or updates, together with a schedule of
  the failures that the store will answer the coming calls with.
\<close>

subsection \<open>JSON values\<close>

datatype json =
    JNull
  | JBool bool
  | JNum int
  | JStr string
  | JArr "json list"
  | JObj "(string \<times> json) list"

text \<open>
  A number is an integer that JavaScript represents exactly; the keys of an object are
  distinct. Property access \<open>obj.k\<close>: \<open>None\<close> stands for the JavaScript value
  \<open>undefined\<close>.
\<close>

fun field :: "string \<Rightarrow> json \<Rightarrow> json option" where
  "field k (JObj kvs) = map_of kvs k"
| "field k _ = None"

subsection \<open>Errors\<close>

text \<open>
  \<open>ReferenceError x\<close>: the identifier \<open>x\<close> is not bound in the module.
  The other three are what a persistence call can reject with: a schema validation
  failure, a violated unique index, and any other failure of the store (connection,
  timeout, ...), which the model leaves opaque.
\<close>

datatype error =
    ReferenceError string
  | ValidationError string
  | DuplicateKey string
  | StoreError string

subsection \<open>Documents\<close>

type_synonym oid = nat

text \<open>
  The User schema (lines 42-56). \<open>user_oid\<close> is the document's \<open>_id\<close>. A field
  that a document does not carry is \<open>None\<close>; \<open>firebase_uid\<close> is required by the
  schema, and is absent only from a document read through \<open>select("-firebase_uid")\<close>.
  The timestamps are wall-clock values and are left out.
\<close>

record user =
  user_oid :: oid
  firebase_uid :: "string option"
  full_name :: "string option"
  user_email :: "string option"
  user_role :: string
  user_university :: "string option"
  research_interests :: "string list"
  citations :: "int option"

text \<open>
  The Research schema (lines 59-73). \<open>None\<close> is a path that is absent or \<open>null\<close>,
  in an array a \<open>null\<close> element. \<open>invalid\<close> lists the paths whose value in the
  constructor's argument could not be cast to the type of the schema: the document
  remembers them, and validation fails on them at \<open>save\<close>.
\<close>

record eligibility =
  degree :: "string option"
  year :: "string option list"
  skills_required :: "string option list"

record research =
  research_oid :: oid
  title :: "string option"
  description :: "string option"
  professor_id :: "oid option"
  university :: "string option"
  eligibility :: eligibility
  research_status :: "string option"
  applicants :: "oid option list"
  invalid :: "string list"

text \<open>
  Modelled from the spec: the Application and Discussion documents. demo.js declares no
  schema for either; an application has the three fields that the handler of
  POST /api/apply passes to the constructor (lines 160-164), a discussion has a creator
  reference (the path populated at line 172) and content.
\<close>

record application =
  application_oid :: oid
  student_id :: string
  research_id :: "json option"
  application_text :: "json option"

record discussion =
  discussion_oid :: oid
  created_by :: "oid option"
  content :: "json option"

subsection \<open>The store\<close>

text \<open>
  \<open>faults\<close> is the schedule of the store's answers: the n-th persistence call from now
  fails with the n-th entry when that entry is \<open>Some e\<close> and is served otherwise;
  beyond the end of the list every call is served. \<open>next_oid\<close> is the next fresh
  \<open>_id\<close>, which the model constructor assigns when a document is built.
\<close>

record world =
  users :: "user list"
  researches :: "research list"
  applications :: "application list"
  discussions :: "discussion list"
  next_oid :: oid
  faults :: "error option list"

definition persistence_call :: "world \<Rightarrow> error option \<times> world" where
  "persistence_call w =
     (case faults w of
        [] \<Rightarrow> (None, w)
      | f # fs \<Rightarrow> (f, w\<lparr>faults := fs\<rparr>))"

subsection \<open>Requests and responses\<close>

text \<open>
  The decoded identity token, which \<open>checkAuth\<close> stores in \<open>req.user\<close>. The handlers
  read \<open>uid\<close>, \<open>email\<close>, \<open>name\<close> and \<open>role\<close>; \<open>role\<close> is a custom claim and is
  \<open>None\<close> (\<open>undefined\<close>) when the token carries none.
\<close>

record id_token =
  uid :: string
  email :: string
  name :: string
  role :: "string option"

record request =
  authorization :: "string option"
  body :: json

text \<open>
  The bodies that the handlers pass to \<open>res.json\<close>. \<open>Users None\<close> is
  \<open>res.json(undefined)\<close>, which sends an empty body.
\<close>

record professor_ref =
  ref_oid :: oid
  ref_full_name :: "string option"
  ref_email :: "string option"

datatype body =
    Msg string
  | Msg_error string error
  | Msg_user string user
  | Msg_application string application
  | Users "user list option"
  | Research_doc research
  | Research_list "(research \<times> professor_ref option) list"
  | Discussion_list "(discussion \<times> professor_ref option) list"

record response =
  status :: nat
  json :: body

definition res_json :: "body \<Rightarrow> response" where
  "res_json b = \<lparr>status = 200, json = b\<rparr>"

definition res_status_json :: "nat \<Rightarrow> body \<Rightarrow> response" where
  "res_status_json s b = \<lparr>status = s, json = b\<rparr>"

text \<open>
  What a handler does with a request: it sends a response, or its promise rejects with
  an error before any response was sent (no \<open>try\<close> encloses the failing expression).
  In the second case the handler itself answers nothing; what the client then sees is
  decided by the framework, outside this module.
\<close>

datatype outcome = Sent response | Rejected error

section \<open>Authentication middleware (lines 25-39)\<close>

text \<open>
  \<open>String.prototype.split\<close> with a string separator: the pieces between the
  successive leftmost occurrences of the separator; an empty separator splits into
  single characters.
\<close>

function split_scan :: "string \<Rightarrow> string \<Rightarrow> string \<Rightarrow> string list" where
  "split_scan sep piece [] = [piece]"
| "split_scan sep piece (c # cs) =
     (if sep \<noteq> [] \<and> take (length sep) (c # cs) = sep
      then piece # split_scan sep [] (drop (length sep) (c # cs))
      else split_scan sep (piece @ [c]) cs)"
  by pat_completeness auto
termination
  by (relation "measure (\<lambda>(sep, piece, s). length s)") auto

definition js_split :: "string \<Rightarrow> string \<Rightarrow> string list" where
  "js_split s sep = (if sep = [] then map (\<lambda>c. [c]) s else split_scan sep [] s)"

text \<open>\<open>xs[1]\<close>, \<open>undefined\<close> when the array has fewer than two elements.\<close>

fun index1 :: "'a list \<Rightarrow> 'a option" where
  "index1 (x # y # ys) = Some y"
| "index1 _ = None"

text \<open>\<open>req.headers.authorization?.split("Bearer ")[1]\<close>\<close>

definition token_of :: "request \<Rightarrow> string option" where
  "token_of req =
     (case authorization req of
        None \<Rightarrow> None
      | Some h \<Rightarrow> index1 (js_split h ''Bearer ''))"

type_synonym verifier = "string \<Rightarrow> id_token option"

text \<open>
  The middleware either ends the request with a response (\<open>Reject\<close>) or calls
  \<open>next()\<close> with the decoded token stored in \<open>req.user\<close> (\<open>Next\<close>).
  \<open>!token\<close> holds for \<open>undefined\<close> and for the empty string.
\<close>

datatype auth_result = Reject response | Next id_token

definition checkAuth :: "verifier \<Rightarrow> request \<Rightarrow> auth_result" where
  "checkAuth verifyIdToken req =
     (case token_of req of
        None \<Rightarrow> Reject (res_status_json 401 (Msg ''Unauthorized: No token provided''))
      | Some token \<Rightarrow>
          if token = [] then Reject (res_status_json 401 (Msg ''Unauthorized: No token provided''))
          else (case verifyIdToken token of
                  Some userData \<Rightarrow> Next userData
                | None \<Rightarrow> Reject (res_status_json 401 (Msg ''Unauthorized: Invalid token''))))"

text \<open>A route registered as \<open>app.METHOD(path, checkAuth, handler)\<close>.\<close>

definition with_checkAuth ::
  "verifier \<Rightarrow> (id_token \<Rightarrow> request \<Rightarrow> world \<Rightarrow> outcome \<times> world) \<Rightarrow>
   request \<Rightarrow> world \<Rightarrow> outcome \<times> world" where
  "with_checkAuth verifyIdToken handler req w =
     (case checkAuth verifyIdToken req of
        Reject r \<Rightarrow> (Sent r, w)
      | Next userData \<Rightarrow> handler userData req w)"

section \<open>Persistence layer, as the handlers use it\<close>

subsection \<open>Users\<close>

text \<open>\<open>User.findOne({ email })\<close>: the first stored user with that email, or \<open>null\<close>.\<close>

definition User_findOne :: "string \<Rightarrow> world \<Rightarrow> (error + user option) \<times> world" where
  "User_findOne e w =
     (case persistence_call w of
        (Some err, w') \<Rightarrow> (Inl err, w')
      | (None, w') \<Rightarrow> (Inr (find (\<lambda>x. user_email x = Some e) (users w')), w'))"

text \<open>\<open>.select("-firebase_uid")\<close>: the document without that field.\<close>

definition select_minus_firebase_uid :: "user \<Rightarrow> user" where
  "select_minus_firebase_uid x = x\<lparr>firebase_uid := None\<rparr>"

text \<open>\<open>User.find(filter).select("-firebase_uid")\<close>, one query.\<close>

definition User_find_select :: "(user \<Rightarrow> bool) \<Rightarrow> world \<Rightarrow> (error + user list) \<times> world" where
  "User_find_select p w =
     (case persistence_call w of
        (Some err, w') \<Rightarrow> (Inl err, w')
      | (None, w') \<Rightarrow> (Inr (map select_minus_firebase_uid (filter p (users w'))), w'))"

text \<open>
  \<open>new User({ firebase_uid: uid, full_name: name, email })\<close>: the constructor assigns
  a fresh \<open>_id\<close> and the schema defaults (\<open>role\<close> is "student", the array is empty).
\<close>

definition User_new :: "string \<Rightarrow> string \<Rightarrow> string \<Rightarrow> world \<Rightarrow> user \<times> world" where
  "User_new uid' name' email' w =
     (\<lparr>user_oid = next_oid w, firebase_uid = Some uid', full_name = Some name',
       user_email = Some email', user_role = ''student'', user_university = None,
       research_interests = [], citations = None\<rparr>,
      w\<lparr>next_oid := Suc (next_oid w)\<rparr>)"

text \<open>
  \<open>user.save()\<close> of a new document: schema validation (\<open>firebase_uid\<close> required,
  which for a string also refuses the empty one; \<open>role\<close> within the enumeration), then
  the insert, which the store refuses when \<open>_id\<close>, \<open>firebase_uid\<close> or \<open>email\<close>
  (the unique indexes) is already taken.
\<close>

definition User_save :: "user \<Rightarrow> world \<Rightarrow> (error + user) \<times> world" where
  "User_save x w =
     (if firebase_uid x = None \<or> firebase_uid x = Some []
      then (Inl (ValidationError ''firebase_uid''), w)
      else if user_role x \<notin> set [''student'', ''professor'', ''admin'']
      then (Inl (ValidationError ''role''), w)
      else (case persistence_call w of
              (Some err, w') \<Rightarrow> (Inl err, w')
            | (None, w') \<Rightarrow>
                if user_oid x \<in> set (map user_oid (users w')) then (Inl (DuplicateKey ''_id''), w')
                else if firebase_uid x \<in> set (map firebase_uid (users w'))
                then (Inl (DuplicateKey ''firebase_uid''), w')
                else if user_email x \<in> set (map user_email (users w'))
                then (Inl (DuplicateKey ''email''), w')
                else (Inr x, w'\<lparr>users := users w' @ [x]\<rparr>)))"

subsection \<open>Research\<close>

text \<open>
  \<open>String(n)\<close> for an integer, and \<open>value.toString()\<close> for a JSON value: an
  array joins the strings of its elements with commas, \<open>null\<close> elements giving the
  empty string.
\<close>

function show_nat :: "nat \<Rightarrow> string" where
  "show_nat n =
     (if n < 10 then [''0123456789'' ! n]
      else show_nat (n div 10) @ [''0123456789'' ! (n mod 10)])"
  by pat_completeness auto
termination
  by (relation "measure id") auto

declare show_nat.simps [simp del]

definition show_int :: "int \<Rightarrow> string" where
  "show_int i = (if i < 0 then CHR ''-'' # show_nat (nat (- i)) else show_nat (nat i))"

fun join_comma :: "string list \<Rightarrow> string" where
  "join_comma [] = []"
| "join_comma [s] = s"
| "join_comma (s # t # ss) = s @ CHR '','' # join_comma (t # ss)"

fun js_to_string :: "json \<Rightarrow> string" where
  "js_to_string JNull = ''null''"
| "js_to_string (JBool b) = (if b then ''true'' else ''false'')"
| "js_to_string (JNum n) = show_int n"
| "js_to_string (JStr s) = s"
| "js_to_string (JArr js) =
     join_comma (map (\<lambda>j. if j = JNull then [] else js_to_string j) js)"
| "js_to_string (JObj kvs) = ''[object Object]''"

text \<open>The values that are false in a condition.\<close>

fun falsy :: "json \<Rightarrow> bool" where
  "falsy JNull = True"
| "falsy (JBool b) = (\<not> b)"
| "falsy (JNum n) = (n = 0)"
| "falsy (JStr s) = (s = [])"
| "falsy _ = False"

text \<open>
  An ObjectId is represented by the number that its 24 hexadecimal digits denote; in
  JSON it is the string of those digits, in either case of the letters.
\<close>

definition hex_digit :: "char \<Rightarrow> nat option" where
  "hex_digit c =
     (let n = (of_char c :: nat) in
      if 48 \<le> n \<and> n \<le> 57 then Some (n - 48)
      else if 97 \<le> n \<and> n \<le> 102 then Some (n - 87)
      else if 65 \<le> n \<and> n \<le> 70 then Some (n - 55)
      else None)"

fun hex_value :: "nat \<Rightarrow> string \<Rightarrow> nat option" where
  "hex_value acc [] = Some acc"
| "hex_value acc (c # cs) =
     (case hex_digit c of
        None \<Rightarrow> None
      | Some d \<Rightarrow> hex_value (16 * acc + d) cs)"

definition oid_of_string :: "string \<Rightarrow> oid option" where
  "oid_of_string s = (if length s = 24 then hex_value 0 s else None)"

text \<open>
  What the schema makes of the value that the constructor's argument has at a path:
  the path is not there (\<open>Unset\<close>), it is \<open>null\<close>, the value is cast to the type
  of the path (\<open>Val\<close>), or it cannot be cast (\<open>Bad\<close>).
\<close>

datatype 'a casted = Unset | Null | Val 'a | Bad

fun value_of :: "'a casted \<Rightarrow> 'a option" where
  "value_of (Val v) = Some v"
| "value_of _ = None"

fun bad_path :: "string \<Rightarrow> 'a casted \<Rightarrow> string list" where
  "bad_path p Bad = [p]"
| "bad_path p _ = []"

text \<open>
  The cast to String: a string is itself, a number or a boolean its \<open>toString()\<close>,
  an object with a non-empty string \<open>_id\<close> that string; an array and any other object
  cannot be cast.
\<close>

fun cast_string :: "json option \<Rightarrow> string casted" where
  "cast_string None = Unset"
| "cast_string (Some JNull) = Null"
| "cast_string (Some (JStr s)) = Val s"
| "cast_string (Some (JNum n)) = Val (show_int n)"
| "cast_string (Some (JBool b)) = Val (if b then ''true'' else ''false'')"
| "cast_string (Some (JArr js)) = Bad"
| "cast_string (Some (JObj kvs)) =
     (case map_of kvs ''_id'' of
        Some (JStr s) \<Rightarrow> if s = [] then Bad else Val s
      | _ \<Rightarrow> Bad)"

text \<open>
  The cast to ObjectId: of an object with a true \<open>_id\<close>, the ObjectId that the string
  of the \<open>_id\<close> denotes; of any other value, the one that its own string denotes.
\<close>

definition oid_of_value :: "json \<Rightarrow> oid casted" where
  "oid_of_value j = (case oid_of_string (js_to_string j) of Some i \<Rightarrow> Val i | None \<Rightarrow> Bad)"

fun cast_oid :: "json option \<Rightarrow> oid casted" where
  "cast_oid None = Unset"
| "cast_oid (Some JNull) = Null"
| "cast_oid (Some (JObj kvs)) =
     (case map_of kvs ''_id'' of
        None \<Rightarrow> Bad
      | Some i \<Rightarrow> if falsy i then Bad else oid_of_value i)"
| "cast_oid (Some j) = oid_of_value j"

text \<open>
  The cast to an array: a value that is not an array is taken as the array of that one
  value; the elements are cast one by one, and one that cannot be cast makes the whole
  path invalid.
\<close>

definition cast_elements :: "(json option \<Rightarrow> 'a casted) \<Rightarrow> json list \<Rightarrow> 'a option list casted" where
  "cast_elements c js =
     (if Bad \<in> set (map (\<lambda>j. c (Some j)) js) then Bad
      else Val (map (\<lambda>j. value_of (c (Some j))) js))"

fun cast_array :: "(json option \<Rightarrow> 'a casted) \<Rightarrow> json option \<Rightarrow> 'a option list casted" where
  "cast_array c None = Unset"
| "cast_array c (Some JNull) = Null"
| "cast_array c (Some (JArr js)) = cast_elements c js"
| "cast_array c (Some j) = cast_elements c [j]"

fun elements_of :: "'a list casted \<Rightarrow> 'a list" where
  "elements_of (Val xs) = xs"
| "elements_of _ = []"

text \<open>
  \<open>new Research(req.body)\<close>: the paths of the schema are cast from the body, every
  other key is dropped, as is a value of \<open>eligibility\<close> that is not an object;
  \<open>_id\<close> is the body's when it has one and fresh otherwise; \<open>status\<close> defaults to
  "open" when the body has none. A body that sets the version key or a timestamp is
  outside the model.
\<close>

definition Research_new :: "json \<Rightarrow> world \<Rightarrow> research \<times> world" where
  "Research_new b w =
     (let e = (case field ''eligibility'' b of Some (JObj kvs) \<Rightarrow> JObj kvs | _ \<Rightarrow> JObj []);
          c_id = cast_oid (field ''_id'' b);
          c_title = cast_string (field ''title'' b);
          c_description = cast_string (field ''description'' b);
          c_professor_id = cast_oid (field ''professor_id'' b);
          c_university = cast_string (field ''university'' b);
          c_degree = cast_string (field ''degree'' e);
          c_year = cast_array cast_string (field ''year'' e);
          c_skills_required = cast_array cast_string (field ''skills_required'' e);
          c_status = cast_string (field ''status'' b);
          c_applicants = cast_array cast_oid (field ''applicants'' b)
      in (\<lparr>research_oid = (case c_id of Val i \<Rightarrow> i | _ \<Rightarrow> next_oid w),
           title = value_of c_title,
           description = value_of c_description,
           professor_id = value_of c_professor_id,
           university = value_of c_university,
           eligibility =
             \<lparr>degree = value_of c_degree, year = elements_of c_year,
              skills_required = elements_of c_skills_required\<rparr>,
           research_status = (case c_status of Unset \<Rightarrow> Some ''open'' | c \<Rightarrow> value_of c),
           applicants = elements_of c_applicants,
           invalid =
             (if c_id = Null then [''_id''] else bad_path ''_id'' c_id)
             @ bad_path ''title'' c_title @ bad_path ''description'' c_description
             @ bad_path ''professor_id'' c_professor_id @ bad_path ''university'' c_university
             @ bad_path ''eligibility.degree'' c_degree @ bad_path ''eligibility.year'' c_year
             @ bad_path ''eligibility.skills_required'' c_skills_required
             @ bad_path ''status'' c_status @ bad_path ''applicants'' c_applicants\<rparr>,
          w\<lparr>next_oid := Suc (next_oid w)\<rparr>))"

text \<open>
  \<open>research.save()\<close>: validation fails on a path that could not be cast and on a
  \<open>status\<close> outside the enumeration (\<open>null\<close> passes); then the insert.
\<close>

definition Research_save :: "research \<Rightarrow> world \<Rightarrow> (error + research) \<times> world" where
  "Research_save r w =
     (if invalid r \<noteq> [] then (Inl (ValidationError (hd (invalid r))), w)
      else if (case research_status r of None \<Rightarrow> False
               | Some s \<Rightarrow> s \<notin> set [''open'', ''closed''])
      then (Inl (ValidationError ''status''), w)
      else (case persistence_call w of
              (Some err, w') \<Rightarrow> (Inl err, w')
            | (None, w') \<Rightarrow>
                if research_oid r \<in> set (map research_oid (researches w'))
                then (Inl (DuplicateKey ''_id''), w')
                else (Inr r, w'\<lparr>researches := researches w' @ [r]\<rparr>)))"

text \<open>
  \<open>.populate(path, "full_name email")\<close>: the referenced user's \<open>_id\<close>, name and
  email, or \<open>null\<close> when the reference is absent or dangling.
\<close>

definition populate :: "user list \<Rightarrow> oid option \<Rightarrow> professor_ref option" where
  "populate us r =
     (case r of
        None \<Rightarrow> None
      | Some i \<Rightarrow>
          (case find (\<lambda>x. user_oid x = i) us of
             None \<Rightarrow> None
           | Some x \<Rightarrow> Some \<lparr>ref_oid = user_oid x, ref_full_name = full_name x,
                             ref_email = user_email x\<rparr>))"

text \<open>
  \<open>Research.find().populate("professor_id", "full_name email")\<close>: the query for the
  documents, then, when some document has a reference, the query for the users referred
  to.
\<close>

definition Research_find_populate ::
  "world \<Rightarrow> (error + (research \<times> professor_ref option) list) \<times> world" where
  "Research_find_populate w =
     (case persistence_call w of
        (Some err, w') \<Rightarrow> (Inl err, w')
      | (None, w') \<Rightarrow>
          if List.map_filter professor_id (researches w') = []
          then (Inr (map (\<lambda>r. (r, populate (users w') (professor_id r))) (researches w')),
                w')
          else (case persistence_call w' of
                  (Some err, w'') \<Rightarrow> (Inl err, w'')
                | (None, w'') \<Rightarrow>
                    (Inr (map (\<lambda>r. (r, populate (users w'') (professor_id r)))
                            (researches w'')),
                     w'')))"

subsection \<open>Applications and discussions\<close>

text \<open>
  Modelled from the spec: the constructor, \<open>save\<close> and \<open>find().populate\<close> of the
  Application and Discussion models, which demo.js uses and does not declare. They
  behave as those of the two declared models do.
\<close>

definition Application_new ::
  "string \<Rightarrow> json option \<Rightarrow> json option \<Rightarrow> world \<Rightarrow> application \<times> world" where
  "Application_new student research text' w =
     (\<lparr>application_oid = next_oid w, student_id = student, research_id = research,
       application_text = text'\<rparr>,
      w\<lparr>next_oid := Suc (next_oid w)\<rparr>)"

definition Application_save :: "application \<Rightarrow> world \<Rightarrow> (error + application) \<times> world" where
  "Application_save a w =
     (case persistence_call w of
        (Some err, w') \<Rightarrow> (Inl err, w')
      | (None, w') \<Rightarrow> (Inr a, w'\<lparr>applications := applications w' @ [a]\<rparr>))"

definition Discussion_find_populate ::
  "world \<Rightarrow> (error + (discussion \<times> professor_ref option) list) \<times> world" where
  "Discussion_find_populate w =
     (case persistence_call w of
        (Some err, w') \<Rightarrow> (Inl err, w')
      | (None, w') \<Rightarrow>
          if List.map_filter created_by (discussions w') = []
          then (Inr (map (\<lambda>d. (d, populate (users w') (created_by d))) (discussions w')),
                w')
          else (case persistence_call w' of
                  (Some err, w'') \<Rightarrow> (Inl err, w'')
                | (None, w'') \<Rightarrow>
                    (Inr (map (\<lambda>d. (d, populate (users w'') (created_by d)))
                            (discussions w'')),
                     w'')))"

section \<open>Module scope\<close>

text \<open>
  The bindings that demo.js declares at top level (lines 3-42, 59, 177). Evaluating an
  identifier that is neither one of them nor a parameter or local of the running function
  throws a ReferenceError.
\<close>

definition module_bindings :: "string list" where
  "module_bindings =
     [''express'', ''mongoose'', ''cors'', ''admin'', ''serviceAccount'', ''app'',
      ''checkAuth'', ''User'', ''Research'', ''PORT'']"

definition resolve :: "string \<Rightarrow> error option" where
  "resolve x = (if x \<in> set module_bindings then None else Some (ReferenceError x))"

section \<open>Request handlers\<close>

text \<open>POST /api/auth/login (lines 78-88).\<close>

definition post_login :: "id_token \<Rightarrow> request \<Rightarrow> world \<Rightarrow> outcome \<times> world" where
  "post_login u req w =
     (case User_findOne (email u) w of
        (Inl err, w1) \<Rightarrow> (Rejected err, w1)
      | (Inr (Some user), w1) \<Rightarrow> (Sent (res_json (Msg_user ''Login successful'' user)), w1)
      | (Inr None, w1) \<Rightarrow>
          (case User_new (uid u) (name u) (email u) w1 of
             (user, w2) \<Rightarrow>
               (case User_save user w2 of
                  (Inl err, w3) \<Rightarrow> (Rejected err, w3)
                | (Inr saved, w3) \<Rightarrow>
                    (Sent (res_json (Msg_user ''Login successful'' saved)), w3))))"

text \<open>The \<open>try\<close>/\<open>catch\<close> around a user query: the list as JSON, or 500 with the error.\<close>

definition try_users :: "string \<Rightarrow> (error + user list) \<times> world \<Rightarrow> outcome \<times> world" where
  "try_users msg r =
     (case r of
        (Inr us, w') \<Rightarrow> (Sent (res_json (Users (Some us))), w')
      | (Inl err, w') \<Rightarrow> (Sent (res_status_json 500 (Msg_error msg err)), w'))"

text \<open>GET /api/users/professors (lines 91-102).\<close>

definition get_professors :: "id_token \<Rightarrow> request \<Rightarrow> world \<Rightarrow> outcome \<times> world" where
  "get_professors u req w =
     (if role u \<noteq> Some ''student''
      then (Sent (res_status_json 403 (Msg ''Access denied'')), w)
      else try_users ''Error fetching professors''
             (User_find_select (\<lambda>x. user_role x = ''professor'') w))"

text \<open>GET /api/users/students (lines 105-116).\<close>

definition get_students :: "id_token \<Rightarrow> request \<Rightarrow> world \<Rightarrow> outcome \<times> world" where
  "get_students u req w =
     (if role u \<noteq> Some ''professor''
      then (Sent (res_status_json 403 (Msg ''Access denied'')), w)
      else try_users ''Error fetching students''
             (User_find_select (\<lambda>x. user_role x = ''student'') w))"

text \<open>
  GET /api/users (lines 119-135). When no branch of the chain is taken, \<open>users\<close> is
  still \<open>undefined\<close> at \<open>res.json(users)\<close> and no query has run.
\<close>

definition get_users :: "id_token \<Rightarrow> request \<Rightarrow> world \<Rightarrow> outcome \<times> world" where
  "get_users u req w =
     (if role u = Some ''student''
      then try_users ''Error fetching users''
             (User_find_select (\<lambda>x. user_role x = ''professor'') w)
      else if role u = Some ''professor''
      then try_users ''Error fetching users''
             (User_find_select (\<lambda>x. user_role x = ''student'') w)
      else if role u = Some ''admin''
      then try_users ''Error fetching users'' (User_find_select (\<lambda>x. True) w)
      else (Sent (res_json (Users None)), w))"

text \<open>POST /api/research (lines 138-146).\<close>

definition post_research :: "id_token \<Rightarrow> request \<Rightarrow> world \<Rightarrow> outcome \<times> world" where
  "post_research u req w =
     (if role u \<noteq> Some ''professor''
      then (Sent (res_status_json 403 (Msg ''Only professors can post research'')), w)
      else (case Research_new (body req) w of
              (research, w1) \<Rightarrow>
                (case Research_save research w1 of
                   (Inl err, w2) \<Rightarrow> (Rejected err, w2)
                 | (Inr saved, w2) \<Rightarrow> (Sent (res_status_json 201 (Research_doc saved)), w2))))"

text \<open>GET /api/research (lines 149-152).\<close>

definition get_research :: "request \<Rightarrow> world \<Rightarrow> outcome \<times> world" where
  "get_research req w =
     (case Research_find_populate w of
        (Inl err, w') \<Rightarrow> (Rejected err, w')
      | (Inr researchList, w') \<Rightarrow> (Sent (res_json (Research_list researchList)), w'))"

text \<open>
  POST /api/apply (lines 155-168). In \<open>new Application({...})\<close> the constructor
  expression \<open>Application\<close> is evaluated first; \<open>submit_application\<close> is what
  follows once it has a value: the argument, the construction, \<open>save\<close> and the answer.
\<close>

definition submit_application :: "id_token \<Rightarrow> request \<Rightarrow> world \<Rightarrow> outcome \<times> world" where
  "submit_application u req w =
     (case Application_new (uid u) (field ''research_id'' (body req))
             (field ''application_text'' (body req)) w of
        (application, w1) \<Rightarrow>
          (case Application_save application w1 of
             (Inl err, w2) \<Rightarrow> (Rejected err, w2)
           | (Inr saved, w2) \<Rightarrow>
               (Sent (res_status_json 201 (Msg_application ''Application submitted'' saved)),
                w2)))"

definition post_apply :: "id_token \<Rightarrow> request \<Rightarrow> world \<Rightarrow> outcome \<times> world" where
  "post_apply u req w =
     (if role u \<noteq> Some ''student''
      then (Sent (res_status_json 403 (Msg ''Only students can apply'')), w)
      else (case resolve ''Application'' of
              Some err \<Rightarrow> (Rejected err, w)
            | None \<Rightarrow> submit_application u req w))"

text \<open>GET /api/discussions (lines 171-174).\<close>

definition get_discussions :: "request \<Rightarrow> world \<Rightarrow> outcome \<times> world" where
  "get_discussions req w =
     (case resolve ''Discussion'' of
        Some err \<Rightarrow> (Rejected err, w)
      | None \<Rightarrow>
          (case Discussion_find_populate w of
             (Inl err, w') \<Rightarrow> (Rejected err, w')
           | (Inr ds, w') \<Rightarrow> (Sent (res_json (Discussion_list ds)), w')))"

section \<open>The application: its eight routes\<close>

datatype endpoint =
    Post_login
  | Get_professors
  | Get_students
  | Get_users
  | Post_research
  | Get_research
  | Post_apply
  | Get_discussions

fun app :: "verifier \<Rightarrow> endpoint \<Rightarrow> request \<Rightarrow> world \<Rightarrow> outcome \<times> world" where
  "app v Post_login req w = with_checkAuth v post_login req w"
| "app v Get_professors req w = with_checkAuth v get_professors req w"
| "app v Get_students req w = with_checkAuth v get_students req w"
| "app v Get_users req w = with_checkAuth v get_users req w"
| "app v Post_research req w = with_checkAuth v post_research req w"
| "app v Get_research req w = get_research req w"
| "app v Post_apply req w = with_checkAuth v post_apply req w"
| "app v Get_discussions req w = get_discussions req w"

text \<open>The routes registered with \<open>checkAuth\<close>, and the role each role-gated route asks for.\<close>

fun protected :: "endpoint \<Rightarrow> bool" where
  "protected Get_research = False"
| "protected Get_discussions = False"
| "protected _ = True"

fun required_role :: "endpoint \<Rightarrow> string option" where
  "required_role Get_professors = Some ''student''"
| "required_role Get_students = Some ''professor''"
| "required_role Post_research = Some ''professor''"
| "required_role Post_apply = Some ''student''"
| "required_role _ = None"

section \<open>The specification's vocabulary\<close>

text \<open>
  The stored users that the login handler's lookup keys on for an identity: those whose
  email is the email of the verified claims.
\<close>

definition records_for :: "id_token \<Rightarrow> world \<Rightarrow> user list" where
  "records_for u w = filter (\<lambda>x. user_email x = Some (email u)) (users w)"




text \<open>
  The answer of the store to the next persistence call: \<open>None\<close> when it serves the
  call, \<open>Some e\<close> when it fails with \<open>e\<close>.
\<close>

definition next_fault :: "world \<Rightarrow> error option" where
  "next_fault w = fst (persistence_call w)"

section \<open>Concrete inputs\<close>

text \<open>
  Four identities: a student, a professor, one whose token carries no role claim, and an
  administrator.
\<close>

definition alice :: id_token where
  "alice = \<lparr>uid = ''s1'', email = ''alice@uni.edu'', name = ''Alice'', role = Some ''student''\<rparr>"

definition bob :: id_token where
  "bob = \<lparr>uid = ''p1'', email = ''bob@uni.edu'', name = ''Bob'', role = Some ''professor''\<rparr>"

definition carol :: id_token where
  "carol = \<lparr>uid = ''c1'', email = ''carol@uni.edu'', name = ''Carol'', role = None\<rparr>"

definition root :: id_token where
  "root = \<lparr>uid = ''a1'', email = ''root@uni.edu'', name = ''Root'', role = Some ''admin''\<rparr>"

text \<open>
  A fourth identity, whose subject id is the one of a record stored below under another
  email: an account whose email has changed since its first login.
\<close>

definition dave :: id_token where
  "dave = \<lparr>uid = ''s0'', email = ''dave@uni.edu'', name = ''Dave'', role = Some ''student''\<rparr>"

definition verifier0 :: verifier where
  "verifier0 t =
     (if t = ''tok-alice'' then Some alice
      else if t = ''tok-bob'' then Some bob
      else if t = ''tok-carol'' then Some carol
      else if t = ''tok-root'' then Some root
      else if t = ''tok-dave'' then Some dave
      else None)"

definition bearer :: "string \<Rightarrow> json \<Rightarrow> request" where
  "bearer t b = \<lparr>authorization = Some (''Bearer '' @ t), body = b\<rparr>"

definition anonymous :: "json \<Rightarrow> request" where
  "anonymous b = \<lparr>authorization = None, body = b\<rparr>"

definition apply_R1 :: json where
  "apply_R1 = JObj [(''research_id'', JStr ''R1''), (''application_text'', JStr ''I would like to join'')]"

definition empty_store :: world where
  "empty_store =
     \<lparr>users = [], researches = [], applications = [], discussions = [], next_oid = 0,
      faults = []\<rparr>"

text \<open>
  A store with a professor and a student. The student's record has Alice's email but
  another subject id and name than Alice's token.
\<close>

definition ada :: user where
  "ada = \<lparr>user_oid = 0, firebase_uid = Some ''p0'', full_name = Some ''Ada'',
          user_email = Some ''ada@uni.edu'', user_role = ''professor'',
          user_university = None, research_interests = [], citations = None\<rparr>"

definition al :: user where
  "al = \<lparr>user_oid = 1, firebase_uid = Some ''s0'', full_name = Some ''Al'',
         user_email = Some ''alice@uni.edu'', user_role = ''student'',
         user_university = None, research_interests = [], citations = None\<rparr>"

definition campus :: world where
  "campus =
     \<lparr>users = [ada, al], researches = [], applications = [], discussions = [], next_oid = 2,
      faults = []\<rparr>"

text \<open>The record that Bob's first login creates in that store, and the store after it.\<close>

definition bob_user :: user where
  "bob_user = \<lparr>user_oid = 2, firebase_uid = Some ''p1'', full_name = Some ''Bob'',
               user_email = Some ''bob@uni.edu'', user_role = ''student'',
               user_university = None, research_interests = [], citations = None\<rparr>"

definition campus_bob :: world where
  "campus_bob = campus\<lparr>users := [ada, al, bob_user], next_oid := 3\<rparr>"

text \<open>The same stores when the next persistence call fails.\<close>

definition store_down :: "world \<Rightarrow> world" where
  "store_down w = w\<lparr>faults := [Some (StoreError ''connection lost'')]\<rparr>"


section \<open>Facts about the model\<close>

subsection \<open>The middleware\<close>

lemma token_of_absent: "authorization req = None \<Longrightarrow> token_of req = None"
  by (simp add: token_of_def)

lemma checkAuth_rejects:
  assumes "token_of req = None \<or> (\<exists>t. token_of req = Some t \<and> verifyIdToken t = None)"
  shows "\<exists>m. checkAuth verifyIdToken req = Reject \<lparr>status = 401, json = Msg m\<rparr>"
proof (cases "token_of req")
  case None
  then show ?thesis by (simp add: checkAuth_def res_status_json_def)
next
  case (Some t)
  with assms have "verifyIdToken t = None" by simp
  with Some show ?thesis by (simp add: checkAuth_def res_status_json_def)
qed

lemma rejection_is_401:
  "checkAuth verifyIdToken req = Reject x \<Longrightarrow> status x = 401"
  by (auto simp: checkAuth_def res_status_json_def split: option.splits if_splits)

lemma rejection_is_no_list:
  "checkAuth verifyIdToken req = Reject x \<Longrightarrow> json x \<noteq> Users us"
  by (auto simp: checkAuth_def res_status_json_def split: option.splits if_splits)

subsection \<open>The store\<close>

lemma persistence_call_served:
  "next_fault w = None \<Longrightarrow> persistence_call w = (None, w\<lparr>faults := tl (faults w)\<rparr>)"
  by (auto simp: next_fault_def persistence_call_def split: list.splits)

lemma persistence_call_failed:
  "next_fault w = Some e \<Longrightarrow> persistence_call w = (Some e, w\<lparr>faults := tl (faults w)\<rparr>)"
  by (auto simp: next_fault_def persistence_call_def split: list.splits)

lemma next_fault_cases:
  obtains (served) "persistence_call w = (None, w\<lparr>faults := tl (faults w)\<rparr>)"
  | (failed) e where "persistence_call w = (Some e, w\<lparr>faults := tl (faults w)\<rparr>)"
  by (cases "next_fault w") (auto dest: persistence_call_served persistence_call_failed)




lemma find_filter_nonempty: "find p xs = Some x \<Longrightarrow> filter p xs \<noteq> []"
  by (induction xs) (auto split: if_splits)


lemma find_append_new: "find p xs = None \<Longrightarrow> p x \<Longrightarrow> find p (xs @ [x]) = Some x"
  by (induction xs) (auto split: if_splits)

lemma distinct_key_filter:
  "distinct (map f xs) \<Longrightarrow> length (filter (\<lambda>x. f x = k) xs) \<le> 1"
proof (induction xs)
  case Nil
  then show ?case by simp
next
  case (Cons a xs)
  show ?case
  proof (cases "f a = k")
    case True
    from Cons.prems have "f a \<notin> f ` set xs" by simp
    with True have "\<forall>x \<in> set xs. f x \<noteq> k" by (auto simp: image_iff)
    then have "filter (\<lambda>x. f x = k) xs = []" by (simp add: filter_empty_conv)
    with True show ?thesis by simp
  next
    case False
    with Cons show ?thesis by simp
  qed
qed

text \<open>The unique index on \<open>email\<close> leaves at most one record for an identity.\<close>

lemma unique_email_index:
  "distinct (map user_email (users w)) \<Longrightarrow> length (records_for u w) \<le> 1"
  unfolding records_for_def by (rule distinct_key_filter)

subsection \<open>The user queries\<close>

lemma try_users_no_uid:
  assumes "try_users msg (User_find_select p w) = (Sent r, w')"
    and "json r = Users (Some us)"
  shows "\<forall>x \<in> set us. firebase_uid x = None"
  using assms
  by (auto simp: try_users_def User_find_select_def res_json_def res_status_json_def
        select_minus_firebase_uid_def split: prod.splits option.splits sum.splits)

subsection \<open>The login handler\<close>

text \<open>
  When a record with the claimed email is stored, the handler makes one persistence call,
  the lookup, and answers with that record if the lookup is served.
\<close>

lemma post_login_found:
  assumes "find (\<lambda>x. user_email x = Some (email u)) (users w) = Some x"
  shows "post_login u req w =
           (case next_fault w of
              None \<Rightarrow> Sent \<lparr>status = 200, json = Msg_user ''Login successful'' x\<rparr>
            | Some e \<Rightarrow> Rejected e,
            w\<lparr>faults := tl (faults w)\<rparr>)"
  using assms
  by (cases w rule: next_fault_cases)
     (auto simp: post_login_def User_findOne_def res_json_def next_fault_def)

text \<open>
  A login that answers has found the record it returns, or has appended it to a store
  that had none with the claimed email.
\<close>

lemma post_login_sent:
  assumes "post_login u req w = (Sent r, w')"
  shows "\<exists>x. r = \<lparr>status = 200, json = Msg_user ''Login successful'' x\<rparr>
           \<and> find (\<lambda>x. user_email x = Some (email u)) (users w') = Some x
           \<and> (users w' = users w
               \<or> find (\<lambda>x. user_email x = Some (email u)) (users w) = None
                 \<and> users w' = users w @ [x] \<and> firebase_uid x = Some (uid u))"
  using assms
  by (cases w rule: next_fault_cases)
     (auto simp: post_login_def User_findOne_def User_new_def User_save_def res_json_def
           persistence_call_def find_append_new
           split: option.splits if_splits list.splits prod.splits)

text \<open>The handler keeps the emails of the stored users distinct.\<close>

lemma post_login_keeps_unique_email:
  assumes "distinct (map user_email (users w))" and "post_login u req w = (out, w')"
  shows "distinct (map user_email (users w'))"
  using assms
  by (auto simp: post_login_def User_findOne_def User_new_def User_save_def
        persistence_call_def
        split: option.splits if_splits list.splits prod.splits sum.splits)

subsection \<open>The module scope\<close>

lemma resolve_Application: "resolve ''Application'' = Some (ReferenceError ''Application'')"
  by (simp add: resolve_def module_bindings_def)

lemma resolve_Discussion: "resolve ''Discussion'' = Some (ReferenceError ''Discussion'')"
  by (simp add: resolve_def module_bindings_def)

subsection \<open>The concrete inputs\<close>

lemmas example_defs =
  campus_def campus_bob_def ada_def al_def bob_user_def alice_def bob_def carol_def root_def
  dave_def
  store_down_def empty_store_def

lemma checkAuth_alice: "checkAuth verifier0 (bearer ''tok-alice'' b) = Next alice"
  by (simp add: checkAuth_def token_of_def bearer_def js_split_def verifier0_def)

lemma checkAuth_bob: "checkAuth verifier0 (bearer ''tok-bob'' b) = Next bob"
  by (simp add: checkAuth_def token_of_def bearer_def js_split_def verifier0_def)

lemma checkAuth_carol: "checkAuth verifier0 (bearer ''tok-carol'' b) = Next carol"
  by (simp add: checkAuth_def token_of_def bearer_def js_split_def verifier0_def)

lemma checkAuth_root: "checkAuth verifier0 (bearer ''tok-root'' b) = Next root"
  by (simp add: checkAuth_def token_of_def bearer_def js_split_def verifier0_def)


lemma token_forged: "token_of (bearer ''forged'' b) = Some ''forged''"
  by (simp add: token_of_def bearer_def js_split_def)

lemma body_bearer: "body (bearer t b) = b"
  by (simp add: bearer_def)

lemma next_fault_campus: "next_fault campus = None"
  by (simp add: next_fault_def persistence_call_def campus_def)

lemma next_fault_down: "next_fault (store_down w) = Some (StoreError ''connection lost'')"
  by (simp add: next_fault_def persistence_call_def store_down_def)



lemma find_al:
  "find (\<lambda>x. user_email x = Some (email alice)) (users campus) = Some al"
  by (simp add: example_defs)

lemma login_alice:
  "app verifier0 Post_login (bearer ''tok-alice'' JNull) campus
     = (Sent \<lparr>status = 200, json = Msg_user ''Login successful'' al\<rparr>, campus)"
  by (simp add: with_checkAuth_def checkAuth_alice post_login_def User_findOne_def
        persistence_call_def res_json_def example_defs)

lemma professors_for_alice:
  "app verifier0 Get_professors (bearer ''tok-alice'' JNull) campus
     = (Sent \<lparr>status = 200, json = Users (Some [ada\<lparr>firebase_uid := None\<rparr>])\<rparr>, campus)"
  by (simp add: with_checkAuth_def checkAuth_alice get_professors_def try_users_def
        User_find_select_def select_minus_firebase_uid_def persistence_call_def res_json_def
        example_defs)

section \<open>Authentication\<close>

text \<open>
  C1. A request to a route registered with \<open>checkAuth\<close> that has no Authorization
  header, or whose bearer token the verifier refuses, is answered 401 by the middleware.
  \<open>next()\<close> is not called: the answer is the same whatever handler follows the
  middleware, and the store is left as it was (no persistence call is made, so nothing is
  written).
\<close>

theorem unauthenticated_request_is_rejected:
  assumes "protected ep"
    and "authorization req = None \<or> (\<exists>t. token_of req = Some t \<and> verifyIdToken t = None)"
  shows "\<exists>m. checkAuth verifyIdToken req = Reject \<lparr>status = 401, json = Msg m\<rparr>
           \<and> app verifyIdToken ep req w = (Sent \<lparr>status = 401, json = Msg m\<rparr>, w)
           \<and> (\<forall>handler. with_checkAuth verifyIdToken handler req w
                          = (Sent \<lparr>status = 401, json = Msg m\<rparr>, w))"
proof -
  from assms(2)
  have "\<exists>m. checkAuth verifyIdToken req = Reject \<lparr>status = 401, json = Msg m\<rparr>"
    by (intro checkAuth_rejects) (auto simp: token_of_absent)
  then obtain m
    where r: "checkAuth verifyIdToken req = Reject \<lparr>status = 401, json = Msg m\<rparr>" ..
  then have h: "with_checkAuth verifyIdToken handler req w
                  = (Sent \<lparr>status = 401, json = Msg m\<rparr>, w)" for handler
    by (simp add: with_checkAuth_def)
  from assms(1) have "app verifyIdToken ep req w = (Sent \<lparr>status = 401, json = Msg m\<rparr>, w)"
    by (cases ep) (simp_all add: h)
  with r h show ?thesis by blast
qed

theorem unauthenticated_request_is_rejected_witness:
  "protected Post_apply
   \<and> authorization (anonymous apply_R1) = None
   \<and> app verifier0 Post_apply (anonymous apply_R1) campus
       = (Sent \<lparr>status = 401, json = Msg ''Unauthorized: No token provided''\<rparr>, campus)
   \<and> token_of (bearer ''forged'' apply_R1) = Some ''forged''
   \<and> verifier0 ''forged'' = None
   \<and> app verifier0 Post_apply (bearer ''forged'' apply_R1) campus
       = (Sent \<lparr>status = 401, json = Msg ''Unauthorized: Invalid token''\<rparr>, campus)"
proof -
  have p: "protected Post_apply" by simp
  have a: "authorization (anonymous apply_R1) = None
           \<or> (\<exists>t. token_of (anonymous apply_R1) = Some t \<and> verifier0 t = None)"
    by (simp add: anonymous_def)
  have v: "verifier0 ''forged'' = None" by (simp add: verifier0_def)
  have f: "authorization (bearer ''forged'' apply_R1) = None
           \<or> (\<exists>t. token_of (bearer ''forged'' apply_R1) = Some t \<and> verifier0 t = None)"
    by (simp add: token_forged v)
  have ca: "checkAuth verifier0 (anonymous apply_R1)
              = Reject \<lparr>status = 401, json = Msg ''Unauthorized: No token provided''\<rparr>"
    by (simp add: checkAuth_def token_of_def anonymous_def res_status_json_def)
  have cf: "checkAuth verifier0 (bearer ''forged'' apply_R1)
              = Reject \<lparr>status = 401, json = Msg ''Unauthorized: Invalid token''\<rparr>"
    by (simp add: checkAuth_def token_forged v res_status_json_def)
  from unauthenticated_request_is_rejected [OF p a, of campus] ca
  have 1: "app verifier0 Post_apply (anonymous apply_R1) campus
       = (Sent \<lparr>status = 401, json = Msg ''Unauthorized: No token provided''\<rparr>, campus)"
    by auto
  from unauthenticated_request_is_rejected [OF p f, of campus] cf
  have 2: "app verifier0 Post_apply (bearer ''forged'' apply_R1) campus
       = (Sent \<lparr>status = 401, json = Msg ''Unauthorized: Invalid token''\<rparr>, campus)"
    by auto
  from p 1 2 v show ?thesis
    by (simp add: anonymous_def token_forged)
qed

section \<open>Role checks\<close>

text \<open>
  C2. An authenticated request to one of the four role-gated routes whose \<open>role\<close>
  claim is not the role the route asks for is answered 403, and the store is left
  exactly as it was: the check comes first, before any persistence call, any document
  construction and any other effect.
\<close>

theorem role_mismatch_is_forbidden:
  assumes "checkAuth verifyIdToken req = Next u"
    and "required_role ep = Some r"
    and "role u \<noteq> Some r"
  shows "\<exists>m. app verifyIdToken ep req w = (Sent \<lparr>status = 403, json = Msg m\<rparr>, w)"
  using assms
  by (cases ep)
     (auto simp: with_checkAuth_def get_professors_def get_students_def post_research_def
                 post_apply_def res_status_json_def)

theorem role_mismatch_is_forbidden_witness:
  "checkAuth verifier0 (bearer ''tok-alice'' (JObj [(''title'', JStr ''Graphs'')])) = Next alice
   \<and> required_role Post_research = Some ''professor''
   \<and> role alice \<noteq> Some ''professor''
   \<and> app verifier0 Post_research (bearer ''tok-alice'' (JObj [(''title'', JStr ''Graphs'')]))
         (store_down campus)
       = (Sent \<lparr>status = 403, json = Msg ''Only professors can post research''\<rparr>,
          store_down campus)"
proof -
  let ?req = "bearer ''tok-alice'' (JObj [(''title'', JStr ''Graphs'')])"
  have r: "required_role Post_research = Some ''professor''" by simp
  have n: "role alice \<noteq> Some ''professor''" by (simp add: alice_def)
  from role_mismatch_is_forbidden [OF checkAuth_alice r n, of _ "store_down campus"]
  obtain m where m: "app verifier0 Post_research ?req (store_down campus)
                       = (Sent \<lparr>status = 403, json = Msg m\<rparr>, store_down campus)"
    by blast
  moreover have "fst (app verifier0 Post_research ?req (store_down campus))
       = Sent \<lparr>status = 403, json = Msg ''Only professors can post research''\<rparr>"
    by (simp add: with_checkAuth_def checkAuth_alice post_research_def n res_status_json_def)
  ultimately show ?thesis using r n checkAuth_alice by simp
qed

section \<open>Applications\<close>

text \<open>
  Whatever the store and the body, a student's POST /api/apply stops at the constructor
  expression: no application is built, no persistence call is made, no response is sent.
  So the route never answers 201.
\<close>

lemma post_apply_student:
  "role u = Some ''student'' \<Longrightarrow>
   post_apply u req w = (Rejected (ReferenceError ''Application''), w)"
  by (simp add: post_apply_def resolve_Application)

lemma post_apply_never_201:
  "app verifyIdToken Post_apply req w = (Sent r, w') \<Longrightarrow> status r \<in> {401, 403}"
  by (cases "checkAuth verifyIdToken req")
     (auto simp: with_checkAuth_def post_apply_def resolve_Application res_status_json_def
        split: if_splits dest: rejection_is_401)

text \<open>
  The rest of the handler, which is never reached, would do what is expected of the
  route: when the store serves the insert, one application of the caller for the
  research of the body is appended, and the answer is 201.
\<close>

lemma submit_application_served:
  assumes "next_fault w = None"
  shows "\<exists>a w'. submit_application u req w
                  = (Sent \<lparr>status = 201, json = Msg_application ''Application submitted'' a\<rparr>, w')
           \<and> applications w' = applications w @ [a]
           \<and> student_id a = uid u
           \<and> research_id a = field ''research_id'' (body req)"
  using persistence_call_served [OF assms]
  by (simp add: submit_application_def Application_new_def Application_save_def
        persistence_call_def res_status_json_def split: list.splits)

text \<open>
  C3. The student Alice posts \<open>{research_id: "R1", application_text: ...}\<close> to
  /api/apply with a valid token. The handler passes the role check and then evaluates
  \<open>Application\<close>, which the module does not bind: its promise rejects with a
  ReferenceError. No response is sent (so no 201) and the store, with its empty
  collection of applications, is unchanged.
\<close>

theorem apply_by_student_is_reference_error:
  "role alice = Some ''student''
   \<and> body (bearer ''tok-alice'' apply_R1)
       = JObj [(''research_id'', JStr ''R1''), (''application_text'', JStr ''I would like to join'')]
   \<and> applications campus = []
   \<and> app verifier0 Post_apply (bearer ''tok-alice'' apply_R1) campus
       = (Rejected (ReferenceError ''Application''), campus)"
  by (simp add: with_checkAuth_def checkAuth_alice post_apply_def resolve_Application
        alice_def campus_def body_bearer apply_R1_def)

section \<open>Public lists\<close>

text \<open>
  GET /api/research does not look at the Authorization header; when the store serves
  its two queries it answers 200 with the list, which is empty when there is no record.
  Neither public route ever answers 401 or 403: what they send, if anything, is a 200.
\<close>

lemma get_research_served:
  "faults w = [] \<Longrightarrow>
   app verifyIdToken Get_research req w
     = (Sent \<lparr>status = 200,
               json = Research_list
                        (map (\<lambda>r. (r, populate (users w) (professor_id r))) (researches w))\<rparr>,
        w)"
  by (simp add: get_research_def Research_find_populate_def persistence_call_def res_json_def)

lemma public_routes_status:
  "\<not> protected ep \<Longrightarrow> app verifyIdToken ep req w = (Sent r, w') \<Longrightarrow> status r = 200"
  by (cases ep)
     (auto simp: get_research_def get_discussions_def resolve_Discussion res_json_def
        split: prod.splits sum.splits)

lemma get_discussions_always:
  "app verifyIdToken Get_discussions req w = (Rejected (ReferenceError ''Discussion''), w)"
  by (simp add: get_discussions_def resolve_Discussion)

text \<open>
  C4. GET /api/discussions on the empty store, without an Authorization header: the
  handler evaluates \<open>Discussion\<close>, which the module does not bind, and its promise
  rejects with a ReferenceError. No 200 and no list are sent.
\<close>

theorem get_discussions_is_reference_error:
  "discussions empty_store = []
   \<and> app verifier0 Get_discussions (anonymous JNull) empty_store
       = (Rejected (ReferenceError ''Discussion''), empty_store)"
  by (simp add: get_discussions_def resolve_Discussion empty_store_def)

section \<open>Login\<close>







text \<open>
  C10. When a stored record has the email of the claims, login writes nothing: the only
  change to the store is that the lookup has been answered. Every collection is as
  before, and the record, whatever its subject id and name, is still the one the lookup
  finds. When the store serves the lookup, the answer is 200 with that record as stored.
\<close>

theorem login_existing_email_writes_nothing:
  assumes "checkAuth verifyIdToken req = Next u"
    and "find (\<lambda>x. user_email x = Some (email u)) (users w) = Some x"
    and "app verifyIdToken Post_login req w = (out, w')"
  shows "w' = w\<lparr>faults := tl (faults w)\<rparr>
       \<and> users w' = users w
       \<and> find (\<lambda>x. user_email x = Some (email u)) (users w') = Some x
       \<and> (next_fault w = None \<longrightarrow>
            out = Sent \<lparr>status = 200, json = Msg_user ''Login successful'' x\<rparr>)"
proof -
  from assms(1,3) have "post_login u req w = (out, w')"
    by (simp add: with_checkAuth_def)
  with post_login_found [OF assms(2), of req]
  have out: "out = (case next_fault w of
                      None \<Rightarrow> Sent \<lparr>status = 200, json = Msg_user ''Login successful'' x\<rparr>
                    | Some e \<Rightarrow> Rejected e)"
    and w': "w' = w\<lparr>faults := tl (faults w)\<rparr>"
    by simp_all
  from w' have "users w' = users w" by simp
  with out w' assms(2) show ?thesis by simp
qed

theorem login_existing_email_writes_nothing_witness:
  "checkAuth verifier0 (bearer ''tok-alice'' JNull) = Next alice
   \<and> find (\<lambda>x. user_email x = Some (email alice)) (users campus) = Some al
   \<and> firebase_uid al \<noteq> Some (uid alice) \<and> full_name al \<noteq> Some (name alice)
   \<and> next_fault campus = None
   \<and> app verifier0 Post_login (bearer ''tok-alice'' JNull) campus
       = (Sent \<lparr>status = 200, json = Msg_user ''Login successful'' al\<rparr>, campus)
   \<and> campus = campus\<lparr>faults := tl (faults campus)\<rparr>"
proof -
  have d: "firebase_uid al \<noteq> Some (uid alice) \<and> full_name al \<noteq> Some (name alice)"
    by (simp add: example_defs)
  from login_existing_email_writes_nothing [OF checkAuth_alice find_al login_alice]
  have "campus = campus\<lparr>faults := tl (faults campus)\<rparr>" by simp
  with d find_al login_alice next_fault_campus checkAuth_alice show ?thesis by simp
qed

section \<open>Persistence failures\<close>

text \<open>
  A failed query is answered 500 with the error in the body by the three user-list
  handlers, which enclose the query in \<open>try\<close>/\<open>catch\<close> and make it once.
\<close>

lemma user_lists_answer_500:
  assumes "next_fault w = Some e"
  shows "try_users msg (User_find_select p w)
           = (Sent \<lparr>status = 500, json = Msg_error msg e\<rparr>, w\<lparr>faults := tl (faults w)\<rparr>)"
  using persistence_call_failed [OF assms]
  by (simp add: try_users_def User_find_select_def res_status_json_def)

text \<open>None of the other five routes ever answers 500.\<close>

lemma no_500_outside_user_lists:
  assumes "ep \<notin> {Get_professors, Get_students, Get_users}"
    and "app verifyIdToken ep req w = (Sent r, w')"
  shows "status r \<noteq> 500"
proof (cases "protected ep")
  case False
  with assms(2) show ?thesis by (auto dest: public_routes_status)
next
  case True
  show ?thesis
  proof (cases "checkAuth verifyIdToken req")
    case (Reject x)
    with True assms show ?thesis
      by (cases ep) (auto simp: with_checkAuth_def dest: rejection_is_401)
  next
    case (Next u)
    with True assms show ?thesis
      by (cases ep)
         (auto simp: with_checkAuth_def post_login_def post_research_def post_apply_def
            resolve_Application res_json_def res_status_json_def
            split: prod.splits sum.splits option.splits if_splits)
  qed
qed

text \<open>
  C6. The professor Bob logs in, and posts a research, while the store fails the next
  persistence call. Neither handler has a \<open>catch\<close>: the promise of each rejects with
  the store's error, and no response, 500 or other, is sent by the handler.
\<close>

theorem store_failure_in_post_handlers_is_uncaught:
  "next_fault (store_down campus) = Some (StoreError ''connection lost'')
   \<and> app verifier0 Post_login (bearer ''tok-bob'' JNull) (store_down campus)
       = (Rejected (StoreError ''connection lost''), campus)
   \<and> app verifier0 Post_research (bearer ''tok-bob'' (JObj [(''title'', JStr ''Graphs'')]))
         (store_down campus)
       = (Rejected (StoreError ''connection lost''), campus\<lparr>next_oid := 3\<rparr>)"
  by (simp add: with_checkAuth_def checkAuth_bob post_login_def User_findOne_def
        post_research_def Research_new_def Research_save_def Let_def next_fault_def
        persistence_call_def store_down_def campus_def bob_def body_bearer)

section \<open>User lists\<close>

text \<open>
  C7. GET /api/users by an authenticated caller, when the store serves the query: a
  student receives exactly the users whose role is professor, a professor exactly those
  whose role is student, an admin all users, each document without its
  \<open>firebase_uid\<close>. When the store fails the query, the answer is 500 with the error.
\<close>

theorem get_users_role_view:
  assumes "checkAuth verifyIdToken req = Next u"
  shows "(role u = Some ''student'' \<and> next_fault w = None \<longrightarrow>
            fst (app verifyIdToken Get_users req w)
              = Sent \<lparr>status = 200,
                       json = Users (Some (map select_minus_firebase_uid
                                (filter (\<lambda>x. user_role x = ''professor'') (users w))))\<rparr>)
       \<and> (role u = Some ''professor'' \<and> next_fault w = None \<longrightarrow>
            fst (app verifyIdToken Get_users req w)
              = Sent \<lparr>status = 200,
                       json = Users (Some (map select_minus_firebase_uid
                                (filter (\<lambda>x. user_role x = ''student'') (users w))))\<rparr>)
       \<and> (role u = Some ''admin'' \<and> next_fault w = None \<longrightarrow>
            fst (app verifyIdToken Get_users req w)
              = Sent \<lparr>status = 200,
                       json = Users (Some (map select_minus_firebase_uid (users w)))\<rparr>)
       \<and> (\<forall>e. role u \<in> {Some ''student'', Some ''professor'', Some ''admin''}
                \<and> next_fault w = Some e \<longrightarrow>
            fst (app verifyIdToken Get_users req w)
              = Sent \<lparr>status = 500, json = Msg_error ''Error fetching users'' e\<rparr>)"
  using assms
  by (auto simp: with_checkAuth_def get_users_def try_users_def User_find_select_def
        res_json_def res_status_json_def
        dest!: persistence_call_served persistence_call_failed)

theorem get_users_role_view_witness:
  "checkAuth verifier0 (bearer ''tok-alice'' JNull) = Next alice
   \<and> role alice = Some ''student'' \<and> next_fault campus = None
   \<and> fst (app verifier0 Get_users (bearer ''tok-alice'' JNull) campus)
       = Sent \<lparr>status = 200, json = Users (Some [ada\<lparr>firebase_uid := None\<rparr>])\<rparr>
   \<and> checkAuth verifier0 (bearer ''tok-bob'' JNull) = Next bob
   \<and> role bob = Some ''professor''
   \<and> fst (app verifier0 Get_users (bearer ''tok-bob'' JNull) campus)
       = Sent \<lparr>status = 200, json = Users (Some [al\<lparr>firebase_uid := None\<rparr>])\<rparr>
   \<and> checkAuth verifier0 (bearer ''tok-root'' JNull) = Next root
   \<and> role root = Some ''admin''
   \<and> fst (app verifier0 Get_users (bearer ''tok-root'' JNull) campus)
       = Sent \<lparr>status = 200,
                json = Users (Some [ada\<lparr>firebase_uid := None\<rparr>, al\<lparr>firebase_uid := None\<rparr>])\<rparr>
   \<and> next_fault (store_down campus) = Some (StoreError ''connection lost'')
   \<and> fst (app verifier0 Get_users (bearer ''tok-root'' JNull) (store_down campus))
       = Sent \<lparr>status = 500,
                json = Msg_error ''Error fetching users'' (StoreError ''connection lost'')\<rparr>"
proof -
  have ra: "role alice = Some ''student''" by (simp add: alice_def)
  have rb: "role bob = Some ''professor''" by (simp add: bob_def)
  have rr: "role root = Some ''admin''" by (simp add: root_def)
  have us: "users campus = [ada, al]" "user_role ada = ''professor''" "user_role al = ''student''"
    by (simp_all add: campus_def ada_def al_def)
  have ud: "users (store_down campus) = [ada, al]"
    by (simp add: store_down_def campus_def)
  note v = get_users_role_view
  from v [OF checkAuth_alice [of JNull], of campus] ra next_fault_campus
  have 1: "fst (app verifier0 Get_users (bearer ''tok-alice'' JNull) campus)
       = Sent \<lparr>status = 200, json = Users (Some [ada\<lparr>firebase_uid := None\<rparr>])\<rparr>"
    by (simp add: us select_minus_firebase_uid_def)
  from v [OF checkAuth_bob [of JNull], of campus] rb next_fault_campus
  have 2: "fst (app verifier0 Get_users (bearer ''tok-bob'' JNull) campus)
       = Sent \<lparr>status = 200, json = Users (Some [al\<lparr>firebase_uid := None\<rparr>])\<rparr>"
    by (simp add: us select_minus_firebase_uid_def)
  from v [OF checkAuth_root [of JNull], of campus] rr next_fault_campus
  have 3: "fst (app verifier0 Get_users (bearer ''tok-root'' JNull) campus)
       = Sent \<lparr>status = 200,
                json = Users (Some [ada\<lparr>firebase_uid := None\<rparr>, al\<lparr>firebase_uid := None\<rparr>])\<rparr>"
    by (simp add: us select_minus_firebase_uid_def)
  from v [OF checkAuth_root [of JNull], of "store_down campus"] rr next_fault_down
  have 4: "fst (app verifier0 Get_users (bearer ''tok-root'' JNull) (store_down campus))
       = Sent \<lparr>status = 500,
                json = Msg_error ''Error fetching users'' (StoreError ''connection lost'')\<rparr>"
    by simp
  from 1 2 3 4 ra rb rr next_fault_campus next_fault_down
    checkAuth_alice checkAuth_bob checkAuth_root
  show ?thesis by simp
qed

text \<open>
  C8. Whenever GET /api/users/professors, GET /api/users/students or GET /api/users
  answers with a list of users, no document of the list has the field
  \<open>firebase_uid\<close>.
\<close>

theorem role_scoped_lists_omit_firebase_uid:
  assumes "ep \<in> {Get_professors, Get_students, Get_users}"
    and "app verifyIdToken ep req w = (Sent r, w')"
    and "json r = Users (Some us)"
  shows "\<forall>x \<in> set us. firebase_uid x = None"
proof (cases "checkAuth verifyIdToken req")
  case (Reject x)
  with assms(1,2) have "r = x"
    by (auto simp: with_checkAuth_def)
  with Reject assms(3) show ?thesis
    by (simp add: rejection_is_no_list)
next
  case (Next u)
  with assms(1,2) consider
      (prof) "get_professors u req w = (Sent r, w')"
    | (stud) "get_students u req w = (Sent r, w')"
    | (all) "get_users u req w = (Sent r, w')"
    by (auto simp: with_checkAuth_def)
  then show ?thesis
  proof cases
    case prof
    with assms(3) show ?thesis
      by (auto simp: get_professors_def res_status_json_def split: if_splits
               dest!: try_users_no_uid)
  next
    case stud
    with assms(3) show ?thesis
      by (auto simp: get_students_def res_status_json_def split: if_splits
               dest!: try_users_no_uid)
  next
    case all
    with assms(3) show ?thesis
      by (auto simp: get_users_def res_json_def split: if_splits
               dest!: try_users_no_uid)
  qed
qed

theorem role_scoped_lists_omit_firebase_uid_witness:
  "Get_professors \<in> {Get_professors, Get_students, Get_users}
   \<and> app verifier0 Get_professors (bearer ''tok-alice'' JNull) campus
       = (Sent \<lparr>status = 200, json = Users (Some [ada\<lparr>firebase_uid := None\<rparr>])\<rparr>, campus)
   \<and> firebase_uid ada = Some ''p0''
   \<and> firebase_uid (ada\<lparr>firebase_uid := None\<rparr>) = None"
proof -
  have m: "Get_professors \<in> {Get_professors, Get_students, Get_users}" by simp
  have j: "json \<lparr>status = 200, json = Users (Some [ada\<lparr>firebase_uid := None\<rparr>])\<rparr>
             = Users (Some [ada\<lparr>firebase_uid := None\<rparr>])"
    by simp
  from role_scoped_lists_omit_firebase_uid [OF m professors_for_alice j]
  have "\<forall>x \<in> set [ada\<lparr>firebase_uid := None\<rparr>]. firebase_uid x = None" .
  with professors_for_alice show ?thesis by (simp add: ada_def)
qed

text \<open>
  C9. GET /api/users by an authenticated caller whose \<open>role\<close> claim is absent or is
  none of student, professor and admin: no branch of the chain is taken, so no query
  runs (the store is exactly as before, its next answer still pending), and the answer
  is 200 with \<open>res.json(undefined)\<close>, neither a list nor an error status.
\<close>

theorem get_users_unknown_role:
  assumes "checkAuth verifyIdToken req = Next u"
    and "role u \<notin> {Some ''student'', Some ''professor'', Some ''admin''}"
  shows "app verifyIdToken Get_users req w = (Sent \<lparr>status = 200, json = Users None\<rparr>, w)"
  using assms by (simp add: with_checkAuth_def get_users_def res_json_def)

theorem get_users_unknown_role_witness:
  "checkAuth verifier0 (bearer ''tok-carol'' JNull) = Next carol
   \<and> role carol \<notin> {Some ''student'', Some ''professor'', Some ''admin''}
   \<and> app verifier0 Get_users (bearer ''tok-carol'' JNull) (store_down campus)
       = (Sent \<lparr>status = 200, json = Users None\<rparr>, store_down campus)"
proof -
  have r: "role carol \<notin> {Some ''student'', Some ''professor'', Some ''admin''}"
    by (simp add: carol_def)
  from get_users_unknown_role [OF checkAuth_carol [of JNull] r, of "store_down campus"]
    r checkAuth_carol
  show ?thesis by simp
qed

end
